theory Spec2Isabelle
  imports Complex_Main
begin

section \<open>Python and NumPy values\<close>

text \<open>
  The module \<^verbatim>\<open>pygs/statmisc.py\<close> is a flat library of six functions over NumPy
  arrays. Numbers are modelled as reals (exact arithmetic: rounding, infinities and
  not-a-number are not part of \<^typ>\<open>real\<close>). Where a quotient of the module has a zero
  divisor NumPy yields \<^verbatim>\<open>nan\<close> or \<^verbatim>\<open>inf\<close> and HOL yields 0: the theorems below either hold
  for both or exclude such inputs by a hypothesis. Functions of NumPy and SciPy whose
  values have no closed form (the Student t distribution, \<^verbatim>\<open>np.corrcoef\<close>, the masked
  mean and deviation) are parameters of the functions that call them, so every theorem
  holds for whatever the library computes.
\<close>

datatype py_error =
    SystemError string
  | ValueError string
  | TypeError string
  | IndexError string

text \<open>
  An array as far as the module looks at it: the number of dimensions, the length and,
  for a one-dimensional array, the elements. \<open>ArrND n0 n1 ns\<close> is an array of shape
  \<open>n0 # n1 # ns\<close> (two or more dimensions); its elements are never read.
\<close>

datatype 'a ndarray =
    Arr0 'a
  | Arr1 "'a list"
  | ArrND nat nat "nat list"

fun shape :: "'a ndarray \<Rightarrow> nat list" where
  "shape (Arr0 x) = []"
| "shape (Arr1 xs) = [length xs]"
| "shape (ArrND n0 n1 ns) = n0 # n1 # ns"

text \<open>\<^verbatim>\<open>len(a)\<close>: the first extent; a zero-dimensional array has none.\<close>

definition py_len :: "'a ndarray \<Rightarrow> py_error + nat" where
  "py_len a = (case shape a of
                 [] \<Rightarrow> Inl (TypeError ''len() of unsized object'')
               | n # ns \<Rightarrow> Inr n)"

text \<open>The elements in flat order, as far as the model holds them.\<close>

fun elems :: "'a ndarray \<Rightarrow> 'a list" where
  "elems (Arr1 xs) = xs"
| "elems (Arr0 x) = [x]"
| "elems (ArrND n0 n1 ns) = []"

text \<open>
  A bound of a slice \<^verbatim>\<open>a[i:j]\<close> on a sequence of length \<open>n\<close>: a negative bound counts
  from the end, and every bound is clipped to \<open>0..n\<close>.
\<close>

definition slice_bound :: "int \<Rightarrow> int \<Rightarrow> nat" where
  "slice_bound n i = (if i < 0 then nat (max 0 (i + n)) else nat (min i n))"

definition py_slice :: "'a list \<Rightarrow> int \<Rightarrow> int \<Rightarrow> 'a list" where
  "py_slice xs i j =
     (let n = int (length xs); lo = slice_bound n i; hi = slice_bound n j
      in take (hi - lo) (drop lo xs))"

text \<open>
  \<^verbatim>\<open>a[i] = v\<close> on a one-dimensional array: a negative index counts from the end, an
  index out of range raises.
\<close>

definition py_setitem :: "'a list \<Rightarrow> int \<Rightarrow> 'a \<Rightarrow> py_error + 'a list" where
  "py_setitem xs i v =
     (let n = int (length xs); j = (if i < 0 then i + n else i)
      in if 0 \<le> j \<and> j < n then Inr (xs[nat j := v])
         else Inl (IndexError ''index out of bounds''))"

text \<open>
  \<^verbatim>\<open>np.empty(n, dtype)\<close>: \<open>n\<close> cells of whatever the memory holds (\<open>uninit k\<close> for cell
  \<open>k\<close>); a negative size raises.
\<close>

definition np_empty :: "(nat \<Rightarrow> 'a) \<Rightarrow> int \<Rightarrow> py_error + 'a list" where
  "np_empty uninit n =
     (if n < 0 then Inl (ValueError ''negative dimensions are not allowed'')
      else Inr (map uninit [0..<nat n]))"

section \<open>Running correlation\<close>

text \<open>
  \<^verbatim>\<open>run_corr(arr1, arr2, window_size)\<close>. \<open>corrcoef\<close> is \<^verbatim>\<open>np.corrcoef\<close> on two
  one-dimensional arrays, which returns the 2 x 2 correlation matrix (here a pair of
  rows); \<^verbatim>\<open>[0][1]\<close> reads the second entry of its first row. \<open>f32\<close> is the conversion
  of that entry to the \<^verbatim>\<open>np.float32\<close> cell it is stored in.
\<close>

type_synonym 'c matrix2 = "('c \<times> 'c) \<times> ('c \<times> 'c)"

function run_corr_loop ::
  "('a list \<Rightarrow> 'a list \<Rightarrow> 'c matrix2) \<Rightarrow> ('c \<Rightarrow> 'b) \<Rightarrow> 'a list \<Rightarrow> 'a list \<Rightarrow>
   int \<Rightarrow> int \<Rightarrow> int \<Rightarrow> 'b list \<Rightarrow> py_error + 'b list" where
  "run_corr_loop corrcoef f32 arr1 arr2 window_size a1 i run_corr_arr =
     (if i + window_size - 1 < a1 then
        (let i_start = i;
             i_end = i + window_size - 1;
             corr = snd (fst (corrcoef (py_slice arr1 i_start i_end)
                                       (py_slice arr2 i_start i_end)))
         in (case py_setitem run_corr_arr i (f32 corr) of
               Inl e \<Rightarrow> Inl e
             | Inr run_corr_arr' \<Rightarrow>
                 run_corr_loop corrcoef f32 arr1 arr2 window_size a1 (i + 1) run_corr_arr'))
      else Inr run_corr_arr)"
  by pat_completeness auto
termination
  by (relation "measure (\<lambda>(corrcoef, f32, arr1, arr2, window_size, a1, i, run_corr_arr).
                  nat (a1 - window_size + 1 - i))") auto

definition run_corr ::
  "('a list \<Rightarrow> 'a list \<Rightarrow> 'c matrix2) \<Rightarrow> ('c \<Rightarrow> 'b) \<Rightarrow> (nat \<Rightarrow> 'b) \<Rightarrow>
   'a ndarray \<Rightarrow> 'a ndarray \<Rightarrow> int \<Rightarrow> py_error + 'b list" where
  "run_corr corrcoef f32 uninit arr1 arr2 window_size =
     (if length (shape arr1) > 1 then Inl (ValueError ''Expected only 1D arrays for arr1'')
      else if length (shape arr2) > 1 then Inl (ValueError ''Expected only 1D arrays for arr2'')
      else (case py_len arr1 of Inl e \<Rightarrow> Inl e | Inr a1 \<Rightarrow>
           (case py_len arr2 of Inl e \<Rightarrow> Inl e | Inr a2 \<Rightarrow>
            if a1 \<noteq> a2
            then Inl (ValueError ''Array size mismatch. Pass similarly sized arrays'')
            else (let corr_size = int a1 - window_size + 1
                  in (case np_empty uninit corr_size of
                        Inl e \<Rightarrow> Inl e
                      | Inr run_corr_arr \<Rightarrow>
                          run_corr_loop corrcoef f32 (elems arr1) (elems arr2)
                            window_size (int a1) 0 run_corr_arr)))))"

text \<open>The value \<^verbatim>\<open>run_corr\<close> stores for window \<open>k\<close>.\<close>

definition corr_at ::
  "('a list \<Rightarrow> 'a list \<Rightarrow> 'c matrix2) \<Rightarrow> ('c \<Rightarrow> 'b) \<Rightarrow> 'a list \<Rightarrow> 'a list \<Rightarrow>
   int \<Rightarrow> nat \<Rightarrow> 'b" where
  "corr_at corrcoef f32 arr1 arr2 window_size k =
     f32 (snd (fst (corrcoef (py_slice arr1 (int k) (int k + window_size - 1))
                             (py_slice arr2 (int k) (int k + window_size - 1)))))"

section \<open>Windowed smoothing\<close>

text \<open>A cell of a \<^verbatim>\<open>float64\<close> array: a number, or not-a-number.\<close>

datatype float64 = Num real | NaN

definition arith_mean :: "real list \<Rightarrow> real" where
  "arith_mean xs = sum_list xs / real (length xs)"

text \<open>\<^verbatim>\<open>np.mean\<close> of a one-dimensional array: not-a-number on an empty one.\<close>

definition np_mean :: "real list \<Rightarrow> float64" where
  "np_mean xs = (if xs = [] then NaN else Num (arith_mean xs))"

text \<open>A Python argument that is an \<^verbatim>\<open>int\<close> or a \<^verbatim>\<open>float\<close>.\<close>

datatype py_num = PyInt int | PyFloat real

text \<open>
  \<^verbatim>\<open>smooth_ts(ts, window)\<close>; \<^verbatim>\<open>np.float\<close> is the \<^verbatim>\<open>float64\<close> type (the alias of the
  NumPy releases the module was written for).
\<close>

function smooth_ts_loop ::
  "real list \<Rightarrow> int \<Rightarrow> int \<Rightarrow> int \<Rightarrow> float64 list \<Rightarrow> py_error + float64 list" where
  "smooth_ts_loop ts window n i ts_smooth =
     (if i + window \<le> n then
        (case py_setitem ts_smooth i (np_mean (py_slice ts i (i + window))) of
           Inl e \<Rightarrow> Inl e
         | Inr ts_smooth' \<Rightarrow> smooth_ts_loop ts window n (i + 1) ts_smooth')
      else Inr ts_smooth)"
  by pat_completeness auto
termination
  by (relation "measure (\<lambda>(ts, window, n, i, ts_smooth). nat (n - window + 1 - i))") auto

definition smooth_ts ::
  "(nat \<Rightarrow> float64) \<Rightarrow> real ndarray \<Rightarrow> py_num \<Rightarrow> py_error + float64 list" where
  "smooth_ts uninit ts window =
     (if length (shape ts) > 1 then Inl (ValueError ''Expected 1D vector for ts'')
      else (case window of
              PyFloat w \<Rightarrow> Inl (ValueError ''Integer Expected for window'')
            | PyInt w \<Rightarrow>
               (case py_len ts of
                  Inl e \<Rightarrow> Inl e
                | Inr n \<Rightarrow>
                   (let ns = int n - w + 1
                    in (case np_empty uninit ns of
                          Inl e \<Rightarrow> Inl e
                        | Inr ts_smooth \<Rightarrow>
                            smooth_ts_loop (elems ts) w (int n) 0 ts_smooth)))))"

text \<open>The value \<^verbatim>\<open>smooth_ts\<close> stores for window \<open>k\<close>.\<close>

definition mean_at :: "real list \<Rightarrow> int \<Rightarrow> nat \<Rightarrow> float64" where
  "mean_at ts window k = np_mean (py_slice ts (int k) (int k + window))"

section \<open>Two-sample significance test\<close>

text \<open>
  The calls \<^verbatim>\<open>siglev\<close> makes to the statistics of the library, in the order it makes
  them: the model returns this log with the result, so that what has been computed when
  an error is raised can be stated.
\<close>

datatype 'a stat_call =
    Call_ma_mean "'a ndarray"
  | Call_ma_std "'a ndarray"
  | Call_np_size "'a ndarray"
  | Call_t_cdf real real

text \<open>\<^verbatim>\<open>np.size(x)\<close>: the number of elements, masked ones included.\<close>

definition np_size :: "'a ndarray \<Rightarrow> nat" where
  "np_size a = prod_list (shape a)"

text \<open>
  Lines 40 to 51 and 53 to 63: one side of the test, from the raw sample or from the
  triple. \<open>ma_mean\<close> and \<open>ma_std\<close> are \<^verbatim>\<open>np.ma.mean\<close> and \<^verbatim>\<open>np.ma.std\<close>. An argument left
  at its default \<^verbatim>\<open>None\<close> is \<open>None\<close>.
\<close>

definition siglev_x ::
  "('a ndarray \<Rightarrow> real) \<Rightarrow> ('a ndarray \<Rightarrow> real) \<Rightarrow>
   'a ndarray option \<Rightarrow> real option \<Rightarrow> real option \<Rightarrow> real option \<Rightarrow>
   'a stat_call list \<times> (py_error + real \<times> real \<times> real)" where
  "siglev_x ma_mean ma_std x xbar xstd nx =
     (case x of
        Some xv \<Rightarrow>
          if xbar \<noteq> None \<or> xstd \<noteq> None \<or> nx \<noteq> None
          then ([], Inl (SystemError
                  ''siglev: both x and xbar/xstd/nx cannot be passed together.''))
          else ([Call_ma_mean xv, Call_ma_std xv, Call_np_size xv],
                Inr (ma_mean xv, ma_std xv, real (np_size xv)))
      | None \<Rightarrow>
          if xbar = None \<or> xstd = None \<or> nx = None
          then ([], Inl (SystemError
                  ''siglev: at least x or xbar, xstd, nx should be passed.''))
          else ([], Inr (the xbar, the xstd, the nx)))"

definition siglev_y ::
  "('a ndarray \<Rightarrow> real) \<Rightarrow> ('a ndarray \<Rightarrow> real) \<Rightarrow>
   'a ndarray option \<Rightarrow> real option \<Rightarrow> real option \<Rightarrow> real option \<Rightarrow>
   'a stat_call list \<times> (py_error + real \<times> real \<times> real)" where
  "siglev_y ma_mean ma_std y ybar ystd ny =
     (case y of
        Some yv \<Rightarrow>
          if ybar \<noteq> None \<or> ystd \<noteq> None \<or> ny \<noteq> None
          then ([], Inl (SystemError
                  ''siglev: both y and ybar/ystd/ny cannot be passed together.''))
          else ([Call_ma_mean yv, Call_ma_std yv, Call_np_size yv],
                Inr (ma_mean yv, ma_std yv, real (np_size yv)))
      | None \<Rightarrow>
          if ybar = None \<or> ystd = None \<or> ny = None
          then ([], Inl (SystemError
                  ''siglev: at least y or ybar,ystd,ny should be passed.''))
          else ([], Inr (the ybar, the ystd, the ny)))"

text \<open>Lines 65 to 75: the statistic and the level, \<open>t_cdf\<close> being \<^verbatim>\<open>st.t.cdf\<close>.\<close>

definition siglev_level ::
  "(real \<Rightarrow> real \<Rightarrow> real) \<Rightarrow> real \<Rightarrow> real \<Rightarrow> real \<Rightarrow> real \<Rightarrow> real \<Rightarrow> real \<Rightarrow> bool \<Rightarrow>
   'a stat_call list \<times> real" where
  "siglev_level t_cdf xbar sx nx ybar sy ny pooled =
     (let dof = nx + ny - 2;
          denom = (if pooled
                   then ((nx - 1) * sx\<^sup>2 + (ny - 1) * sy\<^sup>2) / (nx + ny - 2) * (nx + ny) / (nx * ny)
                   else sx\<^sup>2 / nx + sy\<^sup>2 / ny);
          tval = \<bar>xbar - ybar\<bar> / sqrt denom;
          clevm = t_cdf tval dof;
          clevm = (1 - clevm) * 2;
          clevm = (1 - clevm) * 100
      in ([Call_t_cdf tval dof], clevm))"

definition siglev_traced ::
  "('a ndarray \<Rightarrow> real) \<Rightarrow> ('a ndarray \<Rightarrow> real) \<Rightarrow> (real \<Rightarrow> real \<Rightarrow> real) \<Rightarrow>
   'a ndarray option \<Rightarrow> 'a ndarray option \<Rightarrow> real option \<Rightarrow> real option \<Rightarrow>
   real option \<Rightarrow> real option \<Rightarrow> real option \<Rightarrow> real option \<Rightarrow> bool \<Rightarrow>
   'a stat_call list \<times> (py_error + real)" where
  "siglev_traced ma_mean ma_std t_cdf x y xbar ybar xstd ystd nx ny pooled =
     (case siglev_x ma_mean ma_std x xbar xstd nx of
        (cx, Inl e) \<Rightarrow> (cx, Inl e)
      | (cx, Inr (xbar', sx, nx')) \<Rightarrow>
          (case siglev_y ma_mean ma_std y ybar ystd ny of
             (cy, Inl e) \<Rightarrow> (cx @ cy, Inl e)
           | (cy, Inr (ybar', sy, ny')) \<Rightarrow>
               (case siglev_level t_cdf xbar' sx nx' ybar' sy ny' pooled of
                  (ct, clevm) \<Rightarrow> (cx @ cy @ ct, Inr clevm))))"

text \<open>\<^verbatim>\<open>siglev\<close> as the caller sees it: the value returned or the error raised.\<close>

definition siglev ::
  "('a ndarray \<Rightarrow> real) \<Rightarrow> ('a ndarray \<Rightarrow> real) \<Rightarrow> (real \<Rightarrow> real \<Rightarrow> real) \<Rightarrow>
   'a ndarray option \<Rightarrow> 'a ndarray option \<Rightarrow> real option \<Rightarrow> real option \<Rightarrow>
   real option \<Rightarrow> real option \<Rightarrow> real option \<Rightarrow> real option \<Rightarrow> bool \<Rightarrow> py_error + real" where
  "siglev ma_mean ma_std t_cdf x y xbar ybar xstd ystd nx ny pooled =
     snd (siglev_traced ma_mean ma_std t_cdf x y xbar ybar xstd ystd nx ny pooled)"

text \<open>
  A side of the test is invalid when the raw sample comes with a part of the triple, or
  when neither the raw sample nor the whole triple is given.
\<close>

definition side_invalid :: "'a option \<Rightarrow> real option \<Rightarrow> real option \<Rightarrow> real option \<Rightarrow> bool" where
  "side_invalid x xbar xstd nx =
     ((x \<noteq> None \<and> (xbar \<noteq> None \<or> xstd \<noteq> None \<or> nx \<noteq> None)) \<or>
      (x = None \<and> (xbar = None \<or> xstd = None \<or> nx = None)))"

section \<open>Confidence interval width\<close>

text \<open>
  \<^verbatim>\<open>cnfint(xstd, nx, clev, tail)\<close> on scalars (on arrays NumPy applies it to each
  element); \<open>t_ppf\<close> is \<^verbatim>\<open>st.t.ppf\<close>. \<open>tail\<close> is whatever number the caller passes.
\<close>

definition cnfint :: "(real \<Rightarrow> real \<Rightarrow> real) \<Rightarrow> real \<Rightarrow> real \<Rightarrow> real \<Rightarrow> real \<Rightarrow> real" where
  "cnfint t_ppf xstd nx clev tail =
     (let cl = (if tail = 1 then clev else 1 - (1 - clev) / 2);
          sdbar = xstd / sqrt nx;
          tinv_val = t_ppf cl (nx - 1);
          diff = tinv_val * sdbar
      in diff)"

text \<open>
  The Student t distribution with one degree of freedom is the Cauchy distribution,
  whose distribution function and quantile function have closed forms: these are
  \<^verbatim>\<open>st.t.cdf(t, df)\<close> and \<^verbatim>\<open>st.t.ppf(q, df)\<close> at \<open>df = 1\<close>, used where a theorem is
  evaluated at a concrete input.
\<close>

definition t_cdf_df1 :: "real \<Rightarrow> real \<Rightarrow> real" where
  "t_cdf_df1 t df = 1 / 2 + arctan t / pi"

definition t_ppf_df1 :: "real \<Rightarrow> real \<Rightarrow> real" where
  "t_ppf_df1 q df = tan (pi * (q - 1 / 2))"


section \<open>Autocorrelation\<close>

text \<open>\<^verbatim>\<open>a.std()\<close>: the root of the mean squared deviation from the mean.\<close>

definition np_std :: "real list \<Rightarrow> real" where
  "np_std xs = sqrt (arith_mean (map (\<lambda>x. (x - arith_mean xs)\<^sup>2) xs))"

text \<open>
  Modelled from the spec: \<^verbatim>\<open>np.correlate(a, v, mode = 'full')\<close> is a function of NumPy,
  not of the repository. The spec calls it the full discrete correlation, of length
  \<open>len(a) + len(v) - 1\<close> with zero lag at index \<open>len(v) - 1\<close>: entry \<open>j\<close> is the sum of
  the products \<open>a[n + j - (len(v) - 1)] * v[n]\<close> over the \<open>n\<close> where both indices are in
  range.
\<close>

definition full_correlation :: "real list \<Rightarrow> real list \<Rightarrow> real list" where
  "full_correlation a v =
     map (\<lambda>j. \<Sum>n\<leftarrow>[0..<length v].
                 if length v - 1 \<le> n + j \<and> n + j - (length v - 1) < length a
                 then a ! (n + j - (length v - 1)) * v ! n else 0)
         [0..<length a + length v - 1]"

text \<open>
  NumPy's function takes one-dimensional arguments only and refuses an empty one
  (the messages of errors raised inside the library are indicative).
\<close>

fun np_correlate_full :: "real ndarray \<Rightarrow> real ndarray \<Rightarrow> py_error + real list" where
  "np_correlate_full (Arr1 a) (Arr1 v) =
     (if a = [] then Inl (ValueError ''first array argument cannot be empty'')
      else if v = [] then Inl (ValueError ''second array argument cannot be empty'')
      else Inr (full_correlation a v))"
| "np_correlate_full a v = Inl (ValueError ''object of wrong depth for desired array'')"

definition autocorr :: "real ndarray \<Rightarrow> real ndarray \<Rightarrow> py_error + real list" where
  "autocorr a v =
     (if length (shape a) > 1 then Inl (ValueError ''Only 1D objects expected for a'')
      else if length (shape v) > 1 then Inl (ValueError ''Only 1D objects expected for v'')
      else (case py_len a of
              Inl e \<Rightarrow> Inl e
            | Inr n \<Rightarrow>
               (let a' = map_ndarray (\<lambda>x. (x - arith_mean (elems a)) /
                                          (np_std (elems a) * real n)) a;
                    v' = map_ndarray (\<lambda>x. (x - arith_mean (elems v)) / np_std (elems v)) v;
                    corr = np_correlate_full a' v'
                in corr)))"

section \<open>Mann-Kendall trend test\<close>

text \<open>The decimal digits of a number, as \<^verbatim>\<open>%d\<close> prints it.\<close>

fun dec :: "nat \<Rightarrow> string" where
  "dec n = (if n < 10 then [char_of (48 + n)]
            else dec (n div 10) @ [char_of (48 + n mod 10)])"

datatype nan_policy = Propagate | Raise | Omit

text \<open>All pairs of observations, each pair once.\<close>

fun pairs_of :: "'a list \<Rightarrow> ('a \<times> 'a) list" where
  "pairs_of [] = []"
| "pairs_of (z # zs) = map (Pair z) zs @ pairs_of zs"

definition concordant :: "(real \<times> real) \<times> (real \<times> real) \<Rightarrow> bool" where
  "concordant p = (case p of ((x1, y1), (x2, y2)) \<Rightarrow>
                     (x1 < x2 \<and> y1 < y2) \<or> (x2 < x1 \<and> y2 < y1))"

definition discordant :: "(real \<times> real) \<times> (real \<times> real) \<Rightarrow> bool" where
  "discordant p = (case p of ((x1, y1), (x2, y2)) \<Rightarrow>
                     (x1 < x2 \<and> y2 < y1) \<or> (x2 < x1 \<and> y1 < y2))"

definition tied_x_only :: "(real \<times> real) \<times> (real \<times> real) \<Rightarrow> bool" where
  "tied_x_only p = (case p of ((x1, y1), (x2, y2)) \<Rightarrow> x1 = x2 \<and> y1 \<noteq> y2)"

definition tied_y_only :: "(real \<times> real) \<times> (real \<times> real) \<Rightarrow> bool" where
  "tied_y_only p = (case p of ((x1, y1), (x2, y2)) \<Rightarrow> x1 \<noteq> x2 \<and> y1 = y2)"

text \<open>
  Modelled from the spec: \<^verbatim>\<open>scipy.stats.kendalltau\<close> is a function of SciPy, not of the
  repository. The spec calls its first result Kendall's tau rank correlation of the two
  sequences; this is the statistic SciPy documents,
  \<open>(P - Q) / sqrt ((P + Q + T) * (P + Q + U))\<close> with \<open>P\<close> the concordant pairs, \<open>Q\<close> the
  discordant ones, \<open>T\<close> the ties in \<open>x\<close> only and \<open>U\<close> the ties in \<open>y\<close> only, and
  not-a-number where the divisor is 0 (fewer than two observations, or a constant
  sequence).
\<close>

definition kendall_tau_b :: "(real \<times> real) list \<Rightarrow> float64" where
  "kendall_tau_b obs =
     (let ps = pairs_of obs;
          P = real (length (filter concordant ps));
          Q = real (length (filter discordant ps));
          T = real (length (filter tied_x_only ps));
          U = real (length (filter tied_y_only ps))
      in if (P + Q + T) * (P + Q + U) = 0 then NaN
         else Num ((P - Q) / sqrt ((P + Q + T) * (P + Q + U))))"

text \<open>The observations where both values are numbers.\<close>

fun finite_pairs :: "float64 list \<Rightarrow> float64 list \<Rightarrow> (real \<times> real) list" where
  "finite_pairs (Num a # x) (Num b # y) = (a, b) # finite_pairs x y"
| "finite_pairs (a # x) (b # y) = finite_pairs x y"
| "finite_pairs x y = []"

text \<open>
  The p-value SciPy attaches to the statistic comes from an exact count or from a
  normal approximation; the model keeps it unevaluated, as the p-value of the
  observations it is computed from, or as not-a-number.
\<close>

datatype p_value = P_of "(real \<times> real) list" | P_nan

text \<open>
  Modelled from the spec: the call \<^verbatim>\<open>st.kendalltau(x, y, nan_policy)\<close>. The spec has the
  routine raise on a missing value under the policy \<^verbatim>\<open>raise\<close> rather than drop or impute
  it; SciPy's other policies return not-a-number (\<^verbatim>\<open>propagate\<close>) or drop the
  observation (\<^verbatim>\<open>omit\<close>). Empty input gives not-a-number before the policy applies.
\<close>

definition kendalltau ::
  "float64 list \<Rightarrow> float64 list \<Rightarrow> nan_policy \<Rightarrow> py_error + float64 \<times> p_value" where
  "kendalltau x y policy =
     (if length x \<noteq> length y
      then Inl (ValueError ''All inputs to kendalltau must be of the same size'')
      else if x = [] then Inr (NaN, P_nan)
      else if (NaN \<in> set x \<or> NaN \<in> set y) \<and> policy = Raise
      then Inl (ValueError ''The input contains nan values'')
      else if (NaN \<in> set x \<or> NaN \<in> set y) \<and> policy = Propagate
      then Inr (NaN, P_nan)
      else (let obs = finite_pairs x y; tau = kendall_tau_b obs
            in Inr (tau, if tau = NaN then P_nan else P_of obs)))"

text \<open>
  \<^verbatim>\<open>mann_kendall(data)\<close>: \<^verbatim>\<open>np.arange(len(data))\<close> is the sequence \<open>0, 1, ...\<close> of the
  indices. A missing value of \<open>data\<close> is a cell that is not-a-number.
\<close>

definition mann_kendall :: "float64 ndarray \<Rightarrow> py_error + float64 \<times> p_value" where
  "mann_kendall data =
     (if length (shape data) > 1
      then Inl (ValueError (''Only 1D arrays expected '' @ dec (length (shape data)) @
                            '' array was passed''))
      else (case py_len data of
              Inl e \<Rightarrow> Inl e
            | Inr n \<Rightarrow>
               (let x = map (\<lambda>k. Num (real k)) [0..<n];
                    r = kendalltau x (elems data) Raise
                in r)))"

section \<open>Properties of the running correlation\<close>

declare run_corr_loop.simps [simp del]

lemma run_corr_loop_fills:
  "0 \<le> i \<Longrightarrow> i \<le> int (length arr) \<Longrightarrow> int (length arr) = a1 - w + 1 \<Longrightarrow>
   run_corr_loop corrcoef f32 arr1 arr2 w a1 i arr =
     Inr (take (nat i) arr @ map (corr_at corrcoef f32 arr1 arr2 w) [nat i..<length arr])"
proof (induction corrcoef f32 arr1 arr2 w a1 i arr rule: run_corr_loop.induct)
  case (1 corrcoef f32 arr1 arr2 w a1 i arr)
  show ?case
  proof (cases "i + w - 1 < a1")
    case False
    with "1.prems" have "nat i = length arr" by linarith
    with False show ?thesis
      by (subst run_corr_loop.simps) simp
  next
    case True
    with "1.prems" have lt: "nat i < length arr" by linarith
    let ?v = "corr_at corrcoef f32 arr1 arr2 w (nat i)"
    have v: "f32 (snd (fst (corrcoef (py_slice arr1 i (i + w - 1)) (py_slice arr2 i (i + w - 1))))) = ?v"
      using "1.prems"(1) by (simp add: corr_at_def)
    have set: "py_setitem arr i ?v = Inr (arr[nat i := ?v])"
      using "1.prems"(1) lt by (simp add: py_setitem_def Let_def)
    have IH: "run_corr_loop corrcoef f32 arr1 arr2 w a1 (i + 1) (arr[nat i := ?v]) =
        Inr (take (nat (i + 1)) (arr[nat i := ?v]) @
             map (corr_at corrcoef f32 arr1 arr2 w) [nat (i + 1)..<length (arr[nat i := ?v])])"
      using "1.IH"[OF True refl refl refl, of "arr[nat i := ?v]"] v set "1.prems" lt
      by simp
    have n1: "nat (i + 1) = Suc (nat i)" using "1.prems"(1) by simp
    have tk: "take (Suc (nat i)) (arr[nat i := ?v]) = take (nat i) arr @ [?v]"
      using lt by (simp add: take_Suc_conv_app_nth)
    have up: "[nat i..<length arr] = nat i # [Suc (nat i)..<length arr]"
      using lt by (simp add: upt_conv_Cons)
    show ?thesis
      using True IH
      by (subst run_corr_loop.simps) (simp add: Let_def v set n1 tk up)
  qed
qed


lemma py_slice_window:
  "1 \<le> w \<Longrightarrow> int k + w - 1 \<le> int (length xs) \<Longrightarrow>
   py_slice xs (int k) (int k + w - 1) = take (nat (w - 1)) (drop k xs)"
proof -
  assume w: "1 \<le> w" and k: "int k + w - 1 \<le> int (length xs)"
  have lo: "slice_bound (int (length xs)) (int k) = k"
    using w k by (simp add: slice_bound_def)
  have hi: "slice_bound (int (length xs)) (int k + w - 1) = k + nat (w - 1)"
    using w k by (simp add: slice_bound_def nat_add_distrib)
  show ?thesis
    by (simp add: py_slice_def Let_def lo hi del: of_nat_add)
qed

lemma run_corr_eq:
  "length arr1 = length arr2 \<Longrightarrow> window_size \<le> int (length arr1) + 1 \<Longrightarrow>
   run_corr corrcoef f32 uninit (Arr1 arr1) (Arr1 arr2) window_size =
     Inr (map (corr_at corrcoef f32 arr1 arr2 window_size)
            [0..<nat (int (length arr1) - window_size + 1)])"
  using run_corr_loop_fills [of 0 "map uninit [0..<nat (int (length arr1) - window_size + 1)]"
          "int (length arr1)" window_size corrcoef f32 arr1 arr2]
  by (simp add: run_corr_def py_len_def np_empty_def Let_def)

text \<open>
  C1. For one-dimensional arrays of equal length and \<open>1 \<le> window_size \<le> len(arr1)\<close>,
  \<^verbatim>\<open>run_corr\<close> returns \<open>len(arr1) - window_size + 1\<close> values; value \<open>i\<close> is entry
  \<^verbatim>\<open>[0][1]\<close> of \<^verbatim>\<open>np.corrcoef\<close> on the slices \<open>arr1[i : i + window_size - 1]\<close> and
  \<open>arr2[i : i + window_size - 1]\<close>, stored in a \<^verbatim>\<open>float32\<close> cell, and each slice has
  \<open>window_size - 1\<close> elements, one fewer than the window. No cell is left as
  \<^verbatim>\<open>np.empty\<close> made it.
\<close>

theorem run_corr_windows:
  assumes "length arr1 = length arr2"
    and "1 \<le> window_size" and "window_size \<le> int (length arr1)"
  shows "\<exists>out. run_corr corrcoef f32 uninit (Arr1 arr1) (Arr1 arr2) window_size = Inr out \<and>
           int (length out) = int (length arr1) - window_size + 1 \<and>
           (\<forall>i<length out.
              out ! i = f32 (snd (fst (corrcoef (take (nat (window_size - 1)) (drop i arr1))
                                                (take (nat (window_size - 1)) (drop i arr2))))) \<and>
              length (take (nat (window_size - 1)) (drop i arr1)) = nat (window_size - 1) \<and>
              length (take (nat (window_size - 1)) (drop i arr2)) = nat (window_size - 1))"
proof -
  let ?n = "nat (int (length arr1) - window_size + 1)"
  let ?out = "map (corr_at corrcoef f32 arr1 arr2 window_size) [0..<?n]"
  have run: "run_corr corrcoef f32 uninit (Arr1 arr1) (Arr1 arr2) window_size = Inr ?out"
    by (rule run_corr_eq) (use assms in simp_all)
  have len: "int (length ?out) = int (length arr1) - window_size + 1"
    using assms by simp
  have el: "?out ! i = f32 (snd (fst (corrcoef (take (nat (window_size - 1)) (drop i arr1))
                                                (take (nat (window_size - 1)) (drop i arr2))))) \<and>
            length (take (nat (window_size - 1)) (drop i arr1)) = nat (window_size - 1) \<and>
            length (take (nat (window_size - 1)) (drop i arr2)) = nat (window_size - 1)"
    if "i < length ?out" for i
  proof -
    from that have i: "int i + window_size - 1 \<le> int (length arr1)" by simp
    have s1: "py_slice arr1 (int i) (int i + window_size - 1) = take (nat (window_size - 1)) (drop i arr1)"
      by (rule py_slice_window) (use assms i in simp_all)
    have s2: "py_slice arr2 (int i) (int i + window_size - 1) = take (nat (window_size - 1)) (drop i arr2)"
      by (rule py_slice_window) (use assms i in simp_all)
    have l: "nat (window_size - 1) \<le> length arr1 - i"
      using i assms by linarith
    show ?thesis
      using that l assms(1) by (simp add: corr_at_def s1 s2 min_def)
  qed
  show ?thesis
    using run len el by blast
qed

text \<open>On arrays of four elements and a window of 3: two values, each from two elements.\<close>

theorem run_corr_windows_witness:
  "\<forall>corrcoef f32 uninit.
     run_corr corrcoef f32 uninit (Arr1 [1, 2, 4, 8 :: real]) (Arr1 [3, 1, 4, 1 :: real]) 3 =
       Inr [f32 (snd (fst (corrcoef [1, 2] [3, 1]))), f32 (snd (fst (corrcoef [2, 4] [1, 4])))]"
proof (intro allI)
  fix corrcoef :: "real list \<Rightarrow> real list \<Rightarrow> 'c matrix2" and f32 :: "'c \<Rightarrow> 'b" and uninit
  let ?r = "run_corr corrcoef f32 uninit (Arr1 [1, 2, 4, 8 :: real]) (Arr1 [3, 1, 4, 1 :: real]) 3"
  obtain out where out: "?r = Inr out" "int (length out) = 2"
    and el: "\<forall>i<length out. out ! i = f32 (snd (fst (corrcoef (take 2 (drop i [1, 2, 4, 8])) (take 2 (drop i [3, 1, 4, 1])))))"
    using run_corr_windows [of "[1, 2, 4, 8 :: real]" "[3, 1, 4, 1 :: real]" 3 corrcoef f32 uninit]
    by auto
  from out(2) have l: "length out = 2" by simp
  then obtain a b where ab: "out = [a, b]"
    by (cases out; cases "tl out"; cases "tl (tl out)") auto
  from el l have "out ! 0 = f32 (snd (fst (corrcoef [1, 2] [3, 1])))"
    and "out ! 1 = f32 (snd (fst (corrcoef [2, 4] [1, 4])))"
    by (simp_all)
  with ab out(1) show "?r = Inr [f32 (snd (fst (corrcoef [1, 2] [3, 1]))), f32 (snd (fst (corrcoef [2, 4] [1, 4])))]"
    by simp
qed

section \<open>Properties of the windowed smoothing\<close>

declare smooth_ts_loop.simps [simp del]

lemma smooth_ts_loop_fills:
  "0 \<le> i \<Longrightarrow> i \<le> int (length arr) \<Longrightarrow> int (length arr) = n - w + 1 \<Longrightarrow>
   smooth_ts_loop ts w n i arr =
     Inr (take (nat i) arr @ map (mean_at ts w) [nat i..<length arr])"
proof (induction ts w n i arr rule: smooth_ts_loop.induct)
  case (1 ts w n i arr)
  show ?case
  proof (cases "i + w \<le> n")
    case False
    with "1.prems" have "nat i = length arr" by linarith
    with False show ?thesis
      by (subst smooth_ts_loop.simps) simp
  next
    case True
    with "1.prems" have lt: "nat i < length arr" by linarith
    let ?v = "mean_at ts w (nat i)"
    have v: "np_mean (py_slice ts i (i + w)) = ?v"
      using "1.prems"(1) by (simp add: mean_at_def)
    have set: "py_setitem arr i ?v = Inr (arr[nat i := ?v])"
      using "1.prems"(1) lt by (simp add: py_setitem_def Let_def)
    have IH: "smooth_ts_loop ts w n (i + 1) (arr[nat i := ?v]) =
        Inr (take (nat (i + 1)) (arr[nat i := ?v]) @
             map (mean_at ts w) [nat (i + 1)..<length (arr[nat i := ?v])])"
      using "1.IH"[OF True, of "arr[nat i := ?v]"] v set "1.prems" lt
      by simp
    have n1: "nat (i + 1) = Suc (nat i)" using "1.prems"(1) by simp
    have tk: "take (Suc (nat i)) (arr[nat i := ?v]) = take (nat i) arr @ [?v]"
      using lt by (simp add: take_Suc_conv_app_nth)
    have up: "[nat i..<length arr] = nat i # [Suc (nat i)..<length arr]"
      using lt by (simp add: upt_conv_Cons)
    show ?thesis
      using True IH
      by (subst smooth_ts_loop.simps) (simp add: v set n1 tk up)
  qed
qed

lemma smooth_ts_eq:
  "window \<le> int (length ts) + 1 \<Longrightarrow>
   smooth_ts uninit (Arr1 ts) (PyInt window) =
     Inr (map (mean_at ts window) [0..<nat (int (length ts) - window + 1)])"
  using smooth_ts_loop_fills [of 0 "map uninit [0..<nat (int (length ts) - window + 1)]"
          "int (length ts)" window ts]
  by (simp add: smooth_ts_def py_len_def np_empty_def Let_def)

lemma py_slice_take_drop:
  "0 \<le> w \<Longrightarrow> int k + w \<le> int (length xs) \<Longrightarrow>
   py_slice xs (int k) (int k + w) = take (nat w) (drop k xs)"
proof -
  assume w: "0 \<le> w" and k: "int k + w \<le> int (length xs)"
  have lo: "slice_bound (int (length xs)) (int k) = k"
    using w k by (simp add: slice_bound_def)
  have hi: "slice_bound (int (length xs)) (int k + w) = k + nat w"
    using w k by (simp add: slice_bound_def nat_add_distrib)
  show ?thesis
    by (simp add: py_slice_def Let_def lo hi del: of_nat_add)
qed

text \<open>
  C4. For a one-dimensional \<open>ts\<close> and an integer window with \<open>1 \<le> window \<le> len(ts)\<close>,
  \<^verbatim>\<open>smooth_ts\<close> returns \<open>len(ts) - window + 1\<close> values, value \<open>i\<close> being the arithmetic
  mean of the \<open>window\<close> elements \<open>ts[i : i + window]\<close>, earliest window first; and
  \<open>smooth_ts([1,2,3,4,5], 2) = [1.5, 2.5, 3.5, 4.5]\<close>.
\<close>

theorem smooth_ts_means:
  "(1 \<le> window \<and> window \<le> int (length ts) \<longrightarrow>
      (\<exists>out. smooth_ts uninit (Arr1 ts) (PyInt window) = Inr out \<and>
         int (length out) = int (length ts) - window + 1 \<and>
         (\<forall>i<length out.
            out ! i = Num (arith_mean (take (nat window) (drop i ts))) \<and>
            length (take (nat window) (drop i ts)) = nat window))) \<and>
   smooth_ts uninit (Arr1 [1, 2, 3, 4, 5]) (PyInt 2) =
     Inr [Num (3 / 2), Num (5 / 2), Num (7 / 2), Num (9 / 2)]"
proof (intro conjI impI)
  assume a: "1 \<le> window \<and> window \<le> int (length ts)"
  let ?n = "nat (int (length ts) - window + 1)"
  let ?out = "map (mean_at ts window) [0..<?n]"
  have run: "smooth_ts uninit (Arr1 ts) (PyInt window) = Inr ?out"
    by (rule smooth_ts_eq) (use a in simp)
  have len: "int (length ?out) = int (length ts) - window + 1"
    using a by simp
  have el: "?out ! i = Num (arith_mean (take (nat window) (drop i ts))) \<and>
            length (take (nat window) (drop i ts)) = nat window"
    if "i < length ?out" for i
  proof -
    from that have i: "int i + window \<le> int (length ts)" by simp
    have s: "py_slice ts (int i) (int i + window) = take (nat window) (drop i ts)"
      by (rule py_slice_take_drop) (use a i in simp_all)
    have l: "nat window \<le> length ts - i"
      using i a by linarith
    have l': "length (take (nat window) (drop i ts)) = nat window"
      using l by simp
    have ne: "take (nat window) (drop i ts) \<noteq> []"
      using l' a by auto
    show ?thesis
      using that l' ne by (simp add: mean_at_def s np_mean_def)
  qed
  show "\<exists>out. smooth_ts uninit (Arr1 ts) (PyInt window) = Inr out \<and>
         int (length out) = int (length ts) - window + 1 \<and>
         (\<forall>i<length out.
            out ! i = Num (arith_mean (take (nat window) (drop i ts))) \<and>
            length (take (nat window) (drop i ts)) = nat window)"
    using run len el by blast
next
  have u: "[0..<4] = [0, 1, 2, 3]" by (simp add: upt_rec)
  have "smooth_ts uninit (Arr1 [1, 2, 3, 4, 5]) (PyInt 2) =
          Inr (map (mean_at [1, 2, 3, 4, 5] 2) [0..<nat (int (length [1, 2, 3, 4, 5 :: real]) - 2 + 1)])"
    by (rule smooth_ts_eq) simp
  also have "nat (int (length [1, 2, 3, 4, 5 :: real]) - 2 + 1) = 4" by simp
  finally show "smooth_ts uninit (Arr1 [1, 2, 3, 4, 5]) (PyInt 2) =
     Inr [Num (3 / 2), Num (5 / 2), Num (7 / 2), Num (9 / 2)]"
    by (simp add: u mean_at_def py_slice_def slice_bound_def np_mean_def arith_mean_def)
qed


text \<open>A window as long as the series: one value, the mean of all three elements.\<close>

theorem smooth_ts_means_witness:
  "\<forall>uninit. smooth_ts uninit (Arr1 [2, 4, 9]) (PyInt 3) = Inr [Num 5]"
proof
  fix uninit
  let ?r = "smooth_ts uninit (Arr1 [2, 4, 9]) (PyInt 3)"
  have "1 \<le> (3::int) \<and> 3 \<le> int (length [2, 4, 9 :: real])" by simp
  with smooth_ts_means [of 3 "[2, 4, 9]" uninit]
  obtain out where out: "?r = Inr out" "int (length out) = 1"
    and el: "\<forall>i<length out. out ! i = Num (arith_mean (take 3 (drop i [2, 4, 9])))"
    by auto
  from out(2) have l: "length out = 1" by simp
  then obtain a where a: "out = [a]"
    by (cases out) auto
  from el l have "out ! 0 = Num (arith_mean [2, 4, 9])" by simp
  with a out(1) show "?r = Inr [Num 5]"
    by (simp add: arith_mean_def)
qed

section \<open>Properties of the significance test\<close>

lemmas siglev_defs =
  siglev_def siglev_traced_def siglev_x_def siglev_y_def siglev_level_def


text \<open>
  C3. \<^verbatim>\<open>siglev\<close> on two raw sequences returns the value it returns on the triples
  computed from them with the same masked mean and deviation and with their lengths,
  for either value of \<open>pooled\<close>.
\<close>

theorem siglev_raw_equals_summary:
  "\<exists>v. siglev ma_mean ma_std t_cdf (Some (Arr1 x)) (Some (Arr1 y))
            None None None None None None pooled = Inr v \<and>
       siglev ma_mean ma_std t_cdf None None
            (Some (ma_mean (Arr1 x))) (Some (ma_mean (Arr1 y)))
            (Some (ma_std (Arr1 x))) (Some (ma_std (Arr1 y)))
            (Some (real (length x))) (Some (real (length y))) pooled = Inr v"
  by (simp add: siglev_defs Let_def np_size_def)


lemma arith_mean_1_3: "arith_mean [1, 3] = 2"
  by (simp add: arith_mean_def)

lemma np_std_1_3: "np_std [1, 3] = 1"
  by (simp add: np_std_def arith_mean_def)

lemma np_std_0_4: "np_std [0, 4] = 2"
proof -
  have "np_std [0, 4] = sqrt (2\<^sup>2)"
    by (simp add: np_std_def arith_mean_def)
  then show ?thesis by simp
qed


text \<open>
  The samples \<open>[1, 3]\<close> and \<open>[0, 4]\<close>: means 2 and 2, deviations 1 and 2, two
  observations each.
\<close>

theorem siglev_raw_equals_summary_witness:
  "\<exists>v. siglev (arith_mean \<circ> elems) (np_std \<circ> elems) t_cdf_df1
          (Some (Arr1 [1, 3])) (Some (Arr1 [0, 4])) None None None None None None True = Inr v \<and>
       siglev (arith_mean \<circ> elems) (np_std \<circ> elems) t_cdf_df1
          None None (Some 2) (Some 2) (Some 1) (Some 2) (Some 2) (Some 2) True = Inr v"
  using siglev_raw_equals_summary [of "arith_mean \<circ> elems" "np_std \<circ> elems" t_cdf_df1
          "[1, 3]" "[0, 4]" True]
  by (simp add: arith_mean_1_3 np_std_1_3 np_std_0_4 arith_mean_def)

text \<open>
  C8 as stated fails: with a raw \<open>x\<close> and nothing given for \<open>y\<close> the error is raised
  after the mean, the deviation and the size of \<open>x\<close> have been computed.
\<close>

theorem siglev_y_error_after_x_statistics_counterexample:
  "siglev_traced (arith_mean \<circ> elems) (np_std \<circ> elems) t_cdf_df1
     (Some (Arr1 [1, 3])) None None None None None None None False =
   ([Call_ma_mean (Arr1 [1, 3]), Call_ma_std (Arr1 [1, 3]), Call_np_size (Arr1 [1, 3])],
    Inl (SystemError ''siglev: at least y or ybar,ystd,ny should be passed.''))"
  by (simp add: siglev_traced_def siglev_x_def siglev_y_def)

text \<open>
  C8, amended. Whenever a side is invalid \<^verbatim>\<open>siglev\<close> raises a \<^verbatim>\<open>SystemError\<close>, and the
  t distribution is never evaluated. When the \<open>x\<close> side is the invalid one, or \<open>x\<close> is
  given by its triple, no statistic at all has been computed; when \<open>x\<close> is a valid raw
  sample and \<open>y\<close> is invalid, exactly the mean, deviation and size of \<open>x\<close> have been.
\<close>

theorem siglev_invalid_raises:
  assumes "side_invalid x xbar xstd nx \<or> side_invalid y ybar ystd ny"
  shows "\<exists>msg. siglev ma_mean ma_std t_cdf x y xbar ybar xstd ystd nx ny pooled =
                 Inl (SystemError msg) \<and>
           snd (siglev_traced ma_mean ma_std t_cdf x y xbar ybar xstd ystd nx ny pooled) =
                 Inl (SystemError msg) \<and>
           (\<forall>t d. Call_t_cdf t d \<notin>
                set (fst (siglev_traced ma_mean ma_std t_cdf x y xbar ybar xstd ystd nx ny pooled))) \<and>
           (side_invalid x xbar xstd nx \<or> x = None \<longrightarrow>
              fst (siglev_traced ma_mean ma_std t_cdf x y xbar ybar xstd ystd nx ny pooled) = []) \<and>
           (\<not> side_invalid x xbar xstd nx \<longrightarrow> (\<forall>xv. x = Some xv \<longrightarrow>
              fst (siglev_traced ma_mean ma_std t_cdf x y xbar ybar xstd ystd nx ny pooled) =
                [Call_ma_mean xv, Call_ma_std xv, Call_np_size xv]))"
  using assms
  by (cases x; cases y)
     (auto simp: siglev_defs side_invalid_def)


text \<open>
  A raw \<open>x\<close> passed together with \<open>xbar\<close>: the error, and an empty log.
\<close>

theorem siglev_invalid_raises_witness:
  "side_invalid (Some (Arr1 [1, 3 :: real])) (Some 2) None None \<and>
   (\<exists>msg. siglev (arith_mean \<circ> elems) (np_std \<circ> elems) t_cdf_df1
             (Some (Arr1 [1, 3])) None (Some 2) (Some 1) None (Some 0) None (Some 1) False =
           Inl (SystemError msg)) \<and>
   fst (siglev_traced (arith_mean \<circ> elems) (np_std \<circ> elems) t_cdf_df1
             (Some (Arr1 [1, 3])) None (Some 2) (Some 1) None (Some 0) None (Some 1) False) = []"
proof -
  have h: "side_invalid (Some (Arr1 [1, 3 :: real])) (Some 2) None None"
    by (simp add: side_invalid_def)
  from siglev_invalid_raises [where x = "Some (Arr1 [1, 3 :: real])" and xbar = "Some 2"
         and xstd = None and nx = None and y = None and ybar = "Some 1" and ystd = "Some 0"
         and ny = "Some 1" and ma_mean = "arith_mean \<circ> elems" and ma_std = "np_std \<circ> elems"
         and t_cdf = t_cdf_df1 and pooled = False] h
  show ?thesis by blast
qed

section \<open>Properties of the confidence interval width\<close>

text \<open>
  C10. For every \<open>tail\<close> other than 1, \<^verbatim>\<open>cnfint\<close> looks the quantile up at the two-tailed
  level \<open>1 - (1 - clev) / 2\<close> and returns what it returns for \<open>tail = 2\<close>; only
  \<open>tail = 1\<close> uses \<open>clev\<close> itself.
\<close>

theorem cnfint_other_tail:
  assumes "tail \<noteq> 1"
  shows "cnfint t_ppf xstd nx clev tail = cnfint t_ppf xstd nx clev 2 \<and>
         cnfint t_ppf xstd nx clev tail =
           t_ppf (1 - (1 - clev) / 2) (nx - 1) * (xstd / sqrt nx) \<and>
         cnfint t_ppf xstd nx clev 1 = t_ppf clev (nx - 1) * (xstd / sqrt nx)"
  using assms by (simp add: cnfint_def)

text \<open>
  \<open>tail = 3\<close> and \<open>tail = 0\<close> give the width of \<open>tail = 2\<close>.
\<close>

theorem cnfint_other_tail_witness:
  "(3::real) \<noteq> 1 \<and> (0::real) \<noteq> 1 \<and>
   cnfint t_ppf_df1 1 2 (1 / 2) 3 = cnfint t_ppf_df1 1 2 (1 / 2) 2 \<and>
   cnfint t_ppf_df1 1 2 (1 / 2) 0 = cnfint t_ppf_df1 1 2 (1 / 2) 2"
  using cnfint_other_tail [of 3 t_ppf_df1 1 2 "1 / 2"]
        cnfint_other_tail [of 0 t_ppf_df1 1 2 "1 / 2"]
  by simp

text \<open>
  C6 as stated fails: with a deviation of 0 both tails give the width 0 (here two
  members, so one degree of freedom, at the level 0.95).
\<close>

theorem cnfint_zero_deviation_counterexample:
  "(95 / 100 :: real) < 1 \<and>
   cnfint t_ppf_df1 0 2 (95 / 100) 2 = cnfint t_ppf_df1 0 2 (95 / 100) 1"
  by (simp add: cnfint_def)

lemma t_ppf_df1_increasing:
  assumes "0 < p" "p < q" "q < 1"
  shows "t_ppf_df1 p df < t_ppf_df1 q df"
proof -
  have a: "- (pi / 2) < pi * (p - 1 / 2)"
  proof -
    have "pi * (- (1 / 2)) < pi * (p - 1 / 2)"
      using assms by (intro mult_strict_left_mono) simp_all
    then show ?thesis by simp
  qed
  have b: "pi * (q - 1 / 2) < pi / 2"
  proof -
    have "pi * (q - 1 / 2) < pi * (1 / 2)"
      using assms by (intro mult_strict_left_mono) simp_all
    then show ?thesis by simp
  qed
  have c: "pi * (p - 1 / 2) < pi * (q - 1 / 2)"
    using assms by (intro mult_strict_left_mono) simp_all
  show ?thesis
    unfolding t_ppf_df1_def
    by (rule tan_monotone) (use a b c in simp_all)
qed

text \<open>
  C6, amended. For a positive deviation, more than one member, a level strictly
  between 0 and 1, and a quantile function that increases strictly on the open unit
  interval (as that of the t distribution does), the two-tailed width is strictly
  greater than the one-tailed one: they differ, and \<open>tail = 2\<close> gives at least the
  width of \<open>tail = 1\<close>.
\<close>

theorem cnfint_two_tailed_wider:
  assumes "0 < xstd" and "1 < nx" and "0 < clev" and "clev < 1"
    and mono: "\<And>p q. 0 < p \<Longrightarrow> p < q \<Longrightarrow> q < 1 \<Longrightarrow> t_ppf p (nx - 1) < t_ppf q (nx - 1)"
  shows "cnfint t_ppf xstd nx clev 2 \<noteq> cnfint t_ppf xstd nx clev 1 \<and>
         cnfint t_ppf xstd nx clev 2 \<ge> cnfint t_ppf xstd nx clev 1 \<and>
         cnfint t_ppf xstd nx clev 1 < cnfint t_ppf xstd nx clev 2"
proof -
  have lev: "clev < 1 - (1 - clev) / 2" "1 - (1 - clev) / 2 < 1"
    using assms(3,4) by (simp_all add: field_simps)
  have q: "t_ppf clev (nx - 1) < t_ppf (1 - (1 - clev) / 2) (nx - 1)"
    by (rule mono) (use assms lev in simp_all)
  have sd: "0 < xstd / sqrt nx"
    using assms(1,2) by simp
  have "t_ppf clev (nx - 1) * (xstd / sqrt nx) <
        t_ppf (1 - (1 - clev) / 2) (nx - 1) * (xstd / sqrt nx)"
    using q sd by (rule mult_strict_right_mono)
  then have "cnfint t_ppf xstd nx clev 1 < cnfint t_ppf xstd nx clev 2"
    by (simp add: cnfint_def)
  then show ?thesis by simp
qed

text \<open>
  Deviation 1, two members, level one half, with the quantile function of one degree
  of freedom: the one-tailed width is 0, the two-tailed one is greater.
\<close>

theorem cnfint_two_tailed_wider_witness:
  "cnfint t_ppf_df1 1 2 (1 / 2) 2 \<noteq> cnfint t_ppf_df1 1 2 (1 / 2) 1 \<and>
   cnfint t_ppf_df1 1 2 (1 / 2) 2 \<ge> cnfint t_ppf_df1 1 2 (1 / 2) 1 \<and>
   cnfint t_ppf_df1 1 2 (1 / 2) 1 = 0"
proof -
  have "cnfint t_ppf_df1 1 2 (1 / 2) 2 \<noteq> cnfint t_ppf_df1 1 2 (1 / 2) 1 \<and>
        cnfint t_ppf_df1 1 2 (1 / 2) 2 \<ge> cnfint t_ppf_df1 1 2 (1 / 2) 1 \<and>
        cnfint t_ppf_df1 1 2 (1 / 2) 1 < cnfint t_ppf_df1 1 2 (1 / 2) 2"
    by (rule cnfint_two_tailed_wider) (simp_all add: t_ppf_df1_increasing)
  moreover have "cnfint t_ppf_df1 1 2 (1 / 2) 1 = 0"
    by (simp add: cnfint_def t_ppf_df1_def)
  ultimately show ?thesis by simp
qed

section \<open>Properties of the autocorrelation\<close>

lemma length_full_correlation:
  "length (full_correlation a v) = length a + length v - 1"
  by (simp add: full_correlation_def)

text \<open>
  C5 as stated fails on empty sequences: the claimed length \<open>len(a) + len(v) - 1\<close> would
  be \<open>-1\<close>, and \<^verbatim>\<open>np.correlate\<close> refuses an empty argument.
\<close>

theorem autocorr_empty_counterexample:
  "autocorr (Arr1 []) (Arr1 []) = Inl (ValueError ''first array argument cannot be empty'')"
  by (simp add: autocorr_def py_len_def)

text \<open>
  C5, amended. For non-empty one-dimensional \<open>a\<close> and \<open>v\<close>, \<^verbatim>\<open>autocorr\<close> returns the full
  correlation of \<open>(a - mean a) / (std a * len a)\<close> with \<open>(v - mean v) / std v\<close>, of length
  \<open>len(a) + len(v) - 1\<close>; an argument of more than one dimension raises a
  \<^verbatim>\<open>ValueError\<close>. (Where a deviation is 0 the quotients are not-a-number in NumPy and 0
  here; the length and the errors are the same.)
\<close>

theorem autocorr_full_correlation:
  "(a \<noteq> [] \<and> v \<noteq> [] \<longrightarrow>
      autocorr (Arr1 a) (Arr1 v) =
        Inr (full_correlation
               (map (\<lambda>x. (x - arith_mean a) / (np_std a * real (length a))) a)
               (map (\<lambda>x. (x - arith_mean v) / np_std v) v)) \<and>
      (\<exists>out. autocorr (Arr1 a) (Arr1 v) = Inr out \<and>
             int (length out) = int (length a) + int (length v) - 1)) \<and>
   autocorr (ArrND n0 n1 ns) w = Inl (ValueError ''Only 1D objects expected for a'') \<and>
   (\<exists>msg. autocorr u (ArrND n0 n1 ns) = Inl (ValueError msg))"
proof (intro conjI impI)
  assume ne: "a \<noteq> [] \<and> v \<noteq> []"
  let ?a = "map (\<lambda>x. (x - arith_mean a) / (np_std a * real (length a))) a"
  let ?v = "map (\<lambda>x. (x - arith_mean v) / np_std v) v"
  show run: "autocorr (Arr1 a) (Arr1 v) = Inr (full_correlation ?a ?v)"
    using ne by (simp add: autocorr_def py_len_def Let_def)
  have "int (length (full_correlation ?a ?v)) = int (length a) + int (length v) - 1"
    using ne by (cases a) (simp_all add: length_full_correlation)
  with run show "\<exists>out. autocorr (Arr1 a) (Arr1 v) = Inr out \<and>
             int (length out) = int (length a) + int (length v) - 1"
    by blast
next
  show "autocorr (ArrND n0 n1 ns) w = Inl (ValueError ''Only 1D objects expected for a'')"
    by (simp add: autocorr_def)
next
  show "\<exists>msg. autocorr u (ArrND n0 n1 ns) = Inl (ValueError msg)"
    by (simp add: autocorr_def)
qed

lemma upt_3: "[0..<3] = [0, 1, 2]"
  by (simp add: upt_rec)

lemma upt_2: "[0..<2] = [0, 1]"
  by (simp add: upt_rec)

lemma full_correlation_example:
  "full_correlation [- (1 / 2), 1 / 2] [- 1, 1] = [- (1 / 2), 1, - (1 / 2)]"
  by (simp add: full_correlation_def upt_3 upt_2)

text \<open>
  The series \<open>[1, 3]\<close> with itself: mean 2, deviation 1, and the value 1 at zero lag.
\<close>

theorem autocorr_full_correlation_witness:
  "autocorr (Arr1 [1, 3]) (Arr1 [1, 3]) = Inr [- (1 / 2), 1, - (1 / 2)]"
proof -
  have "[1, 3 :: real] \<noteq> [] \<and> [1, 3 :: real] \<noteq> []" by simp
  with autocorr_full_correlation [of "[1, 3]" "[1, 3]"]
  have "autocorr (Arr1 [1, 3]) (Arr1 [1, 3]) =
        Inr (full_correlation
               (map (\<lambda>x. (x - arith_mean [1, 3]) / (np_std [1, 3] * real (length [1, 3 :: real]))) [1, 3])
               (map (\<lambda>x. (x - arith_mean [1, 3]) / np_std [1, 3]) [1, 3]))"
    by blast
  then show ?thesis
    by (simp add: arith_mean_1_3 np_std_1_3 full_correlation_example)
qed

section \<open>Properties of the Mann-Kendall test\<close>

lemma finite_pairs_Num:
  "length xs = length ys \<Longrightarrow> finite_pairs (map Num xs) (map Num ys) = zip xs ys"
  by (induction xs ys rule: list_induct2) simp_all

lemma pairs_of_sorted_wrt:
  "sorted_wrt R zs \<Longrightarrow> p \<in> set (pairs_of zs) \<Longrightarrow> R (fst p) (snd p)"
  by (induction zs) auto

lemma sorted_wrt_zip:
  "length xs = length ys \<Longrightarrow> sorted_wrt P xs \<Longrightarrow> sorted_wrt Q ys \<Longrightarrow>
   sorted_wrt (\<lambda>p q. P (fst p) (fst q) \<and> Q (snd p) (snd q)) (zip xs ys)"
proof (induction xs ys rule: list_induct2)
  case Nil
  then show ?case by simp
next
  case (Cons x xs y ys)
  then show ?case
    by (auto dest: set_zip_leftD set_zip_rightD)
qed

lemma pairs_of_nonempty:
  "2 \<le> length zs \<Longrightarrow> pairs_of zs \<noteq> []"
  by (cases zs; cases "tl zs") auto

lemma sorted_wrt_indices:
  "sorted_wrt (<) (map real [0..<n])"
  by (simp add: sorted_wrt_map sorted_wrt_iff_nth_less)

lemma filter_all: "(\<And>p. p \<in> set ps \<Longrightarrow> P p) \<Longrightarrow> filter P ps = ps"
  by (induction ps) auto

lemma filter_none: "(\<And>p. p \<in> set ps \<Longrightarrow> \<not> P p) \<Longrightarrow> filter P ps = []"
  by (induction ps) auto

lemma concordant_excludes:
  "concordant p \<Longrightarrow> \<not> discordant p \<and> \<not> tied_x_only p \<and> \<not> tied_y_only p"
  by (cases p) (auto simp: concordant_def discordant_def tied_x_only_def tied_y_only_def)

lemma discordant_excludes:
  "discordant p \<Longrightarrow> \<not> concordant p \<and> \<not> tied_x_only p \<and> \<not> tied_y_only p"
  by (cases p) (auto simp: concordant_def discordant_def tied_x_only_def tied_y_only_def)

lemma kendall_tau_b_all_concordant:
  assumes "pairs_of obs \<noteq> []" and "\<And>p. p \<in> set (pairs_of obs) \<Longrightarrow> concordant p"
  shows "kendall_tau_b obs = Num 1"
proof -
  let ?ps = "pairs_of obs"
  have c: "filter concordant ?ps = ?ps"
    using assms(2) by (rule filter_all)
  have d: "filter discordant ?ps = []"
    by (rule filter_none) (use assms(2) concordant_excludes in blast)
  have t: "filter tied_x_only ?ps = []"
    by (rule filter_none) (use assms(2) concordant_excludes in blast)
  have u: "filter tied_y_only ?ps = []"
    by (rule filter_none) (use assms(2) concordant_excludes in blast)
  have pos: "0 < real (length ?ps)"
    using assms(1) by simp
  show ?thesis
    using pos by (simp add: kendall_tau_b_def Let_def c d t u)
qed

lemma kendall_tau_b_all_discordant:
  assumes "pairs_of obs \<noteq> []" and "\<And>p. p \<in> set (pairs_of obs) \<Longrightarrow> discordant p"
  shows "kendall_tau_b obs = Num (- 1)"
proof -
  let ?ps = "pairs_of obs"
  have d: "filter discordant ?ps = ?ps"
    using assms(2) by (rule filter_all)
  have c: "filter concordant ?ps = []"
    by (rule filter_none) (use assms(2) concordant_excludes in blast)
  have t: "filter tied_x_only ?ps = []"
    by (rule filter_none) (use assms(2) discordant_excludes in blast)
  have u: "filter tied_y_only ?ps = []"
    by (rule filter_none) (use assms(2) discordant_excludes in blast)
  have pos: "0 < real (length ?ps)"
    using assms(1) by simp
  show ?thesis
    using pos by (simp add: kendall_tau_b_def Let_def c d t u)
qed

lemma mann_kendall_numbers:
  "ys \<noteq> [] \<Longrightarrow>
   mann_kendall (Arr1 (map Num ys)) =
     (let obs = zip (map real [0..<length ys]) ys; tau = kendall_tau_b obs
      in Inr (tau, if tau = NaN then P_nan else P_of obs))"
proof -
  assume ne: "ys \<noteq> []"
  have m: "map (\<lambda>k. Num (real k)) [0..<length ys] = map Num (map real [0..<length ys])"
    by simp
  have nn: "NaN \<notin> set (map Num zs)" for zs :: "real list"
    by auto
  have "finite_pairs (map Num (map real [0..<length ys])) (map Num ys) =
            zip (map real [0..<length ys]) ys"
    by (rule finite_pairs_Num) simp
  then have fp: "finite_pairs (map (\<lambda>k. Num (real k)) [0..<length ys]) (map Num ys) =
            zip (map real [0..<length ys]) ys"
    by (simp only: m)
  have nx: "NaN \<notin> set (map (\<lambda>k. Num (real k)) [0..<length ys])"
    by auto
  show ?thesis
    using ne nn [of ys] nx
    by (simp add: mann_kendall_def kendalltau_def py_len_def Let_def fp)
qed


text \<open>
  C7 as stated fails on a sequence of one observation, which is strictly increasing:
  it has no pair to rank, and tau is not-a-number.
\<close>

theorem mann_kendall_single_counterexample:
  "sorted_wrt (<) [5 :: real] \<and> mann_kendall (Arr1 [Num 5]) = Inr (NaN, P_nan)"
  by (simp add: mann_kendall_def kendalltau_def py_len_def kendall_tau_b_def)

text \<open>
  C7, amended. On a strictly increasing sequence of at least two numbers
  \<^verbatim>\<open>mann_kendall\<close> returns tau = 1, and on a strictly decreasing one tau = -1, tau being
  Kendall's rank correlation of the sequence with its indices \<open>0, 1, 2, ...\<close>.
\<close>

theorem mann_kendall_monotone:
  assumes "2 \<le> length ys"
  shows "(sorted_wrt (<) ys \<longrightarrow>
            (\<exists>p. mann_kendall (Arr1 (map Num ys)) = Inr (Num 1, p))) \<and>
         (sorted_wrt (>) ys \<longrightarrow>
            (\<exists>p. mann_kendall (Arr1 (map Num ys)) = Inr (Num (- 1), p)))"
proof -
  let ?obs = "zip (map real [0..<length ys]) ys"
  from assms have ne: "ys \<noteq> []" by auto
  have len: "2 \<le> length ?obs" using assms by simp
  have pne: "pairs_of ?obs \<noteq> []"
    using len by (rule pairs_of_nonempty)
  have run: "mann_kendall (Arr1 (map Num ys)) =
      Inr (kendall_tau_b ?obs, if kendall_tau_b ?obs = NaN then P_nan else P_of ?obs)"
    using mann_kendall_numbers [OF ne] by (simp add: Let_def)
  have up: "kendall_tau_b ?obs = Num 1" if inc: "sorted_wrt (<) ys"
  proof (rule kendall_tau_b_all_concordant [OF pne])
    fix p assume p: "p \<in> set (pairs_of ?obs)"
    have "sorted_wrt (\<lambda>p q. fst p < fst q \<and> snd p < snd q) ?obs"
      by (rule sorted_wrt_zip) (use inc sorted_wrt_indices in simp_all)
    from pairs_of_sorted_wrt [OF this p]
    show "concordant p"
      by (cases p) (auto simp: concordant_def)
  qed
  have down: "kendall_tau_b ?obs = Num (- 1)" if dec: "sorted_wrt (>) ys"
  proof (rule kendall_tau_b_all_discordant [OF pne])
    fix p assume p: "p \<in> set (pairs_of ?obs)"
    have "sorted_wrt (\<lambda>p q. fst p < fst q \<and> snd p > snd q) ?obs"
      by (rule sorted_wrt_zip) (use dec sorted_wrt_indices in simp_all)
    from pairs_of_sorted_wrt [OF this p]
    show "discordant p"
      by (cases p) (auto simp: discordant_def)
  qed
  show ?thesis
    using run up down by auto
qed

text \<open>
  The sequence \<open>[1, 2, 3, 4, 5]\<close> of the spec, and \<open>[3, 2, 1]\<close>.
\<close>

theorem mann_kendall_monotone_witness:
  "(\<exists>p. mann_kendall (Arr1 [Num 1, Num 2, Num 3, Num 4, Num 5]) = Inr (Num 1, p)) \<and>
   (\<exists>p. mann_kendall (Arr1 [Num 3, Num 2, Num 1]) = Inr (Num (- 1), p))"
  using mann_kendall_monotone [of "[1, 2, 3, 4, 5]"] mann_kendall_monotone [of "[3, 2, 1]"]
  by simp

text \<open>
  C9. On an array of more than one dimension \<^verbatim>\<open>mann_kendall\<close> raises a \<^verbatim>\<open>ValueError\<close>
  whose message holds the number of dimensions passed; on a one-dimensional array it
  calls the rank correlation under the policy \<^verbatim>\<open>raise\<close>, so that an array holding a
  not-a-number raises instead of returning a statistic.
\<close>

theorem mann_kendall_raises:
  "mann_kendall (ArrND n0 n1 ns) =
     Inl (ValueError (''Only 1D arrays expected '' @ dec (2 + length ns) @
                      '' array was passed'')) \<and>
   mann_kendall (Arr1 xs) = kendalltau (map (\<lambda>k. Num (real k)) [0..<length xs]) xs Raise \<and>
   (NaN \<in> set xs \<longrightarrow>
      mann_kendall (Arr1 xs) = Inl (ValueError ''The input contains nan values''))"
proof (intro conjI impI)
  show "mann_kendall (ArrND n0 n1 ns) =
     Inl (ValueError (''Only 1D arrays expected '' @ dec (2 + length ns) @
                      '' array was passed''))"
    by (simp add: mann_kendall_def del: dec.simps)
  show "mann_kendall (Arr1 xs) = kendalltau (map (\<lambda>k. Num (real k)) [0..<length xs]) xs Raise"
    by (simp add: mann_kendall_def py_len_def)
  assume n: "NaN \<in> set xs"
  then have "xs \<noteq> []" by auto
  with n show "mann_kendall (Arr1 xs) = Inl (ValueError ''The input contains nan values'')"
    by (simp add: mann_kendall_def py_len_def kendalltau_def)
qed

text \<open>
  A 2 x 3 array, and a series with a missing second value.
\<close>

theorem mann_kendall_raises_witness:
  "mann_kendall (ArrND 2 3 []) =
     Inl (ValueError ''Only 1D arrays expected 2 array was passed'') \<and>
   mann_kendall (Arr1 [Num 1, NaN, Num 3]) = Inl (ValueError ''The input contains nan values'')"
proof -
  have d: "dec 2 = ''2''"
    by code_simp
  have n: "NaN \<in> set [Num 1, NaN, Num 3]"
    by simp
  from mann_kendall_raises [of 2 3 "[]" "[Num 1, NaN, Num 3]"]
  have "mann_kendall (ArrND 2 3 []) =
          Inl (ValueError (''Only 1D arrays expected '' @ dec (2 + length ([] :: nat list)) @
                           '' array was passed''))"
    and "NaN \<in> set [Num 1, NaN, Num 3] \<longrightarrow>
         mann_kendall (Arr1 [Num 1, NaN, Num 3]) = Inl (ValueError ''The input contains nan values'')"
    by blast+
  with n show ?thesis
    by (simp add: d del: dec.simps)
qed

end
